theory Spec2Isabelle
  imports Complex_Main
begin

section \<open>Numbers\<close>

text \<open>
  The solver computes with numpy's \<open>float64\<close>. A value is modelled as an exact real or one
  of the special values of IEEE arithmetic, which numpy produces silently (with a warning,
  not an exception): \<open>0.0 ** -2\<close> is \<open>inf\<close> and \<open>0.0 / 0.0\<close> is \<open>nan\<close>. Rounding,
  overflow, underflow and the sign of zero are outside the model: finite values are
  computed exactly.
\<close>

datatype fl = Fin real | PInf | NInf | NaN

fun fl_add :: "fl \<Rightarrow> fl \<Rightarrow> fl" where
  "fl_add NaN y = NaN"
| "fl_add x NaN = NaN"
| "fl_add (Fin a) (Fin b) = Fin (a + b)"
| "fl_add PInf NInf = NaN"
| "fl_add NInf PInf = NaN"
| "fl_add PInf y = PInf"
| "fl_add x PInf = PInf"
| "fl_add NInf y = NInf"
| "fl_add x NInf = NInf"

definition signed_inf :: "bool \<Rightarrow> fl" where
  "signed_inf positive = (if positive then PInf else NInf)"

fun fl_mul :: "fl \<Rightarrow> fl \<Rightarrow> fl" where
  "fl_mul NaN y = NaN"
| "fl_mul x NaN = NaN"
| "fl_mul (Fin a) (Fin b) = Fin (a * b)"
| "fl_mul (Fin a) y = (if a = 0 then NaN else signed_inf ((0 < a) = (y = PInf)))"
| "fl_mul x (Fin b) = (if b = 0 then NaN else signed_inf ((0 < b) = (x = PInf)))"
| "fl_mul x y = signed_inf (x = y)"

fun fl_div :: "fl \<Rightarrow> fl \<Rightarrow> fl" where
  "fl_div NaN y = NaN"
| "fl_div x NaN = NaN"
| "fl_div (Fin a) (Fin b) =
     (if b = 0 then (if a = 0 then NaN else signed_inf (0 < a)) else Fin (a / b))"
| "fl_div (Fin a) y = Fin 0"
| "fl_div x (Fin b) = signed_inf ((0 \<le> b) = (x = PInf))"
| "fl_div x y = NaN"

text \<open>\<open>x ** k\<close> for a float \<open>x\<close> and a Python integer \<open>k\<close> (C's \<open>pow\<close>).\<close>

definition fl_pow :: "fl \<Rightarrow> int \<Rightarrow> fl" where
  "fl_pow x k =
     (if k = 0 then Fin 1
      else case x of
        NaN \<Rightarrow> NaN
      | Fin a \<Rightarrow> if a = 0 \<and> k < 0 then PInf else Fin (power_int a k)
      | PInf \<Rightarrow> if 0 < k then PInf else Fin 0
      | NInf \<Rightarrow> if 0 < k then (if odd k then NInf else PInf) else Fin 0)"

fun fl_less :: "fl \<Rightarrow> fl \<Rightarrow> bool" where
  "fl_less NaN y = False"
| "fl_less x NaN = False"
| "fl_less (Fin a) (Fin b) = (a < b)"
| "fl_less x NInf = False"
| "fl_less NInf y = True"
| "fl_less PInf y = False"
| "fl_less x PInf = True"

fun fl_le :: "fl \<Rightarrow> fl \<Rightarrow> bool" where
  "fl_le NaN y = False"
| "fl_le x NaN = False"
| "fl_le x y = (\<not> fl_less y x)"

fun isfinite :: "fl \<Rightarrow> bool" where
  "isfinite (Fin a) = True"
| "isfinite x = False"

section \<open>Matrices, parameters and the state of a run\<close>

datatype error = IndexError | ValueError

text \<open>
  An \<open>N \<times> N\<close> numpy array is a function on index pairs together with its size; reading
  outside the array raises \<open>IndexError\<close>. Location indices are naturals: the caller
  rejects a negative start index before it calls the solver.
\<close>

type_synonym matrix = "nat \<Rightarrow> nat \<Rightarrow> fl"

definition mat_get :: "nat \<Rightarrow> matrix \<Rightarrow> nat \<Rightarrow> nat \<Rightarrow> error + fl" where
  "mat_get n M i j = (if i < n \<and> j < n then Inr (M i j) else Inl IndexError)"

text \<open>
  The arguments of \<open>solve_aco\<close>. The distance matrix is built from the locations by geopy's
  \<open>geodesic\<close>, a library outside the repository, so the matrix itself is the input here:
  \<open>distance_matrix p i j\<close> is the distance from location \<open>i\<close> to location \<open>j\<close>, and
  \<open>num_locations p\<close> is \<open>len(locations)\<close>.
\<close>

record params =
  num_locations :: nat
  distance_matrix :: matrix
  start_index :: nat
  n_ants :: nat
  n_iterations :: nat
  alpha :: int
  beta :: int
  rho :: real
  q0 :: real

text \<open>
  The random source: \<open>rnd k\<close> is the value of the \<open>k\<close>-th call of \<open>random.random()\<close>
  in the run, a float in \<open>[0, 1)\<close>; the state counts the calls made so far.
\<close>

type_synonym rng = "nat \<Rightarrow> real"

text \<open>The variables of \<open>solve_aco\<close>, and the lines it prints (the best distance, once per iteration).\<close>

record aco_state =
  pheromone_matrix :: matrix
  best_route :: "nat list option"
  best_distance :: fl
  all_routes :: "nat list list"
  all_distances :: "fl list"
  route :: "nat list"
  visited :: "nat set"
  total_distance :: fl
  draws :: nat
  printed :: "fl list"

definition init_state :: aco_state where
  "init_state =
     \<lparr> pheromone_matrix = (\<lambda>i j. Fin 1), best_route = None, best_distance = PInf,
       all_routes = [], all_distances = [], route = [], visited = {},
       total_distance = Fin 0, draws = 0, printed = [] \<rparr>"

section \<open>Route construction\<close>

text \<open>
  The list \<open>probabilities\<close> before normalisation: for each \<open>next_location\<close> of
  \<open>range(num_locations)\<close>, the product of the two powers when it is not visited, else 0.
\<close>

fun scores :: "params \<Rightarrow> matrix \<Rightarrow> nat set \<Rightarrow> nat \<Rightarrow> nat list \<Rightarrow> error + fl list" where
  "scores p ph vis current [] = Inr []"
| "scores p ph vis current (next_location # rest) =
     (if next_location \<notin> vis then
        (case mat_get (num_locations p) ph current next_location of
           Inl e \<Rightarrow> Inl e
         | Inr x \<Rightarrow>
            (case mat_get (num_locations p) (distance_matrix p) current next_location of
               Inl e \<Rightarrow> Inl e
             | Inr d \<Rightarrow>
                (case scores p ph vis current rest of
                   Inl e \<Rightarrow> Inl e
                 | Inr ps \<Rightarrow> Inr (fl_mul (fl_pow x (alpha p)) (fl_pow d (- beta p)) # ps))))
      else
        (case scores p ph vis current rest of
           Inl e \<Rightarrow> Inl e
         | Inr ps \<Rightarrow> Inr (Fin 0 # ps)))"

text \<open>Python's \<open>sum\<close>: from 0, left to right.\<close>

definition py_sum :: "fl list \<Rightarrow> fl" where
  "py_sum xs = foldl fl_add (Fin 0) xs"

text \<open>
  Python's \<open>max\<close> keeps the first item and replaces it by a later one that compares greater;
  \<open>list.index\<close> returns the first position holding the value (the very object \<open>max\<close>
  returned is in the list, so a \<open>nan\<close> maximum is found where it stands).
\<close>

definition py_max :: "fl list \<Rightarrow> error + fl" where
  "py_max xs =
     (case xs of
        [] \<Rightarrow> Inl ValueError
      | x # rest \<Rightarrow> Inr (foldl (\<lambda>m item. if fl_less m item then item else m) x rest))"

fun py_index :: "fl list \<Rightarrow> fl \<Rightarrow> error + nat" where
  "py_index [] v = Inl ValueError"
| "py_index (x # xs) v =
     (if x = v then Inr 0
      else case py_index xs v of Inl e \<Rightarrow> Inl e | Inr i \<Rightarrow> Inr (Suc i))"

text \<open>
  \<open>random.choices(range(n), weights)[0]\<close> of the standard library (CPython 3.9 and later):
  the running sums of the weights, a check of their total, one call of \<open>random()\<close> and a
  binary search (\<open>bisect_right\<close>) between 0 and \<open>n - 1\<close>.
\<close>

fun accumulate_from :: "fl \<Rightarrow> fl list \<Rightarrow> fl list" where
  "accumulate_from acc [] = []"
| "accumulate_from acc (x # xs) = fl_add acc x # accumulate_from (fl_add acc x) xs"

fun accumulate :: "fl list \<Rightarrow> fl list" where
  "accumulate [] = []"
| "accumulate (x # xs) = x # accumulate_from x xs"

function bisect_right :: "fl list \<Rightarrow> fl \<Rightarrow> nat \<Rightarrow> nat \<Rightarrow> nat" where
  "bisect_right a x lo hi =
     (if lo < hi then
        (let mid = (lo + hi) div 2
         in if fl_less x (a ! mid) then bisect_right a x lo mid
            else bisect_right a x (mid + 1) hi)
      else lo)"
  by pat_completeness auto
termination
  by (relation "measure (\<lambda>(a, x, lo, hi). hi - lo)") auto

declare bisect_right.simps [simp del]

definition choices :: "fl list \<Rightarrow> real \<Rightarrow> error + nat" where
  "choices weights u =
     (case accumulate weights of
        [] \<Rightarrow> Inl IndexError
      | c # cs \<Rightarrow>
          (let cum_weights = c # cs;
               total = fl_add (last cum_weights) (Fin 0)
           in if fl_le total (Fin 0) then Inl ValueError
              else if \<not> isfinite total then Inl ValueError
              else Inr (bisect_right cum_weights (fl_mul (Fin u) total) 0 (length weights - 1))))"

text \<open>\<open>probabilities = [p / total_prob for p in probabilities]\<close>.\<close>

definition normalise :: "fl list \<Rightarrow> fl list" where
  "normalise raw = (let total_prob = py_sum raw in map (\<lambda>pr. fl_div pr total_prob) raw)"

text \<open>
  The choice of the next location from the normalised list, with \<open>k\<close> calls of
  \<open>random()\<close> made before: the index chosen and the number of calls made after.
\<close>

definition choose_next :: "params \<Rightarrow> rng \<Rightarrow> nat \<Rightarrow> fl list \<Rightarrow> error + nat \<times> nat" where
  "choose_next p rnd k probabilities =
     (if rnd k < q0 p then
        (case py_max probabilities of
           Inl e \<Rightarrow> Inl e
         | Inr m \<Rightarrow>
            (case py_index probabilities m of
               Inl e \<Rightarrow> Inl e
             | Inr i \<Rightarrow> Inr (i, k + 1)))
      else
        (case choices probabilities (rnd (k + 1)) of
           Inl e \<Rightarrow> Inl e
         | Inr i \<Rightarrow> Inr (i, k + 2)))"

text \<open>One pass of the body of \<open>while len(visited) < num_locations\<close>.\<close>

definition route_step :: "params \<Rightarrow> rng \<Rightarrow> aco_state \<Rightarrow> error + aco_state" where
  "route_step p rnd s =
     (let current = last (route s) in
      case scores p (pheromone_matrix s) (visited s) current [0 ..< num_locations p] of
        Inl e \<Rightarrow> Inl e
      | Inr raw \<Rightarrow>
         (case choose_next p rnd (draws s) (normalise raw) of
            Inl e \<Rightarrow> Inl e
          | Inr (next_location, k) \<Rightarrow>
             (case mat_get (num_locations p) (distance_matrix p) current next_location of
                Inl e \<Rightarrow> Inl e
              | Inr d \<Rightarrow>
                  Inr (s\<lparr> route := route s @ [next_location],
                         visited := insert next_location (visited s),
                         total_distance := fl_add (total_distance s) d,
                         draws := k \<rparr>))))"

text \<open>The while loop may run forever (a visited location can be chosen again): not returning is \<open>None\<close>.\<close>

partial_function (option) route_loop :: "params \<Rightarrow> rng \<Rightarrow> aco_state \<Rightarrow> (error + aco_state) option" where
  "route_loop p rnd s =
     (if card (visited s) < num_locations p then
        (case route_step p rnd s of
           Inl e \<Rightarrow> Some (Inl e)
         | Inr s' \<Rightarrow> route_loop p rnd s')
      else Some (Inr s))"

section \<open>One ant, one iteration, the whole run\<close>

text \<open>
  The body of \<open>for _ in range(n_ants)\<close>: a fresh route from the start index, the while
  loop, the closing edge, the bookkeeping of the iteration and the best solution so far.
\<close>

definition close_route :: "params \<Rightarrow> aco_state \<Rightarrow> error + aco_state" where
  "close_route p s =
     (case mat_get (num_locations p) (distance_matrix p) (last (route s)) (hd (route s)) of
        Inl e \<Rightarrow> Inl e
      | Inr d \<Rightarrow>
         (let total = fl_add (total_distance s) d;
              closed = route s @ [hd (route s)];
              s1 = s\<lparr> total_distance := total, route := closed,
                      all_routes := all_routes s @ [closed],
                      all_distances := all_distances s @ [total] \<rparr>
          in Inr (if fl_less total (best_distance s1)
                  then s1\<lparr> best_distance := total, best_route := Some closed \<rparr>
                  else s1)))"

definition one_ant :: "params \<Rightarrow> rng \<Rightarrow> aco_state \<Rightarrow> (error + aco_state) option" where
  "one_ant p rnd s =
     (case route_loop p rnd
             (s\<lparr> route := [start_index p], visited := {start_index p},
                 total_distance := Fin 0 \<rparr>) of
        None \<Rightarrow> None
      | Some (Inl e) \<Rightarrow> Some (Inl e)
      | Some (Inr s') \<Rightarrow> Some (close_route p s'))"

fun ants_loop :: "nat \<Rightarrow> params \<Rightarrow> rng \<Rightarrow> aco_state \<Rightarrow> (error + aco_state) option" where
  "ants_loop 0 p rnd s = Some (Inr s)"
| "ants_loop (Suc k) p rnd s =
     (case one_ant p rnd s of
        None \<Rightarrow> None
      | Some (Inl e) \<Rightarrow> Some (Inl e)
      | Some (Inr s') \<Rightarrow> ants_loop k p rnd s')"

text \<open>\<open>pheromone_matrix *= (1 - rho)\<close>.\<close>

definition evaporate :: "real \<Rightarrow> matrix \<Rightarrow> matrix" where
  "evaporate r ph = (\<lambda>i j. fl_mul (ph i j) (Fin (1 - r)))"

text \<open>
  The deposit loops. Every route of \<open>all_routes\<close> was closed by \<open>close_route\<close>, so its
  entries are inside the matrix and the indexed update cannot raise.
\<close>

fun deposit_route :: "matrix \<Rightarrow> nat list \<Rightarrow> fl \<Rightarrow> matrix" where
  "deposit_route ph (a # b # rest) d =
     deposit_route (ph(a := (ph a)(b := fl_add (ph a b) (fl_div (Fin 1) d)))) (b # rest) d"
| "deposit_route ph rest d = ph"

fun deposit_all :: "matrix \<Rightarrow> nat list list \<Rightarrow> fl list \<Rightarrow> matrix" where
  "deposit_all ph (r # rs) (d # ds) = deposit_all (deposit_route ph r d) rs ds"
| "deposit_all ph rs ds = ph"

definition update_pheromone :: "params \<Rightarrow> aco_state \<Rightarrow> aco_state" where
  "update_pheromone p s =
     s\<lparr> pheromone_matrix :=
          deposit_all (evaporate (rho p) (pheromone_matrix s)) (all_routes s) (all_distances s) \<rparr>"

text \<open>The body of \<open>for iteration in range(n_iterations)\<close>.\<close>

definition iteration :: "params \<Rightarrow> rng \<Rightarrow> aco_state \<Rightarrow> (error + aco_state) option" where
  "iteration p rnd s =
     (case ants_loop (n_ants p) p rnd (s\<lparr> all_routes := [], all_distances := [] \<rparr>) of
        None \<Rightarrow> None
      | Some (Inl e) \<Rightarrow> Some (Inl e)
      | Some (Inr s') \<Rightarrow>
          (let s2 = update_pheromone p s'
           in Some (Inr (s2\<lparr> printed := printed s2 @ [best_distance s2] \<rparr>))))"

fun iterations_loop :: "nat \<Rightarrow> params \<Rightarrow> rng \<Rightarrow> aco_state \<Rightarrow> (error + aco_state) option" where
  "iterations_loop 0 p rnd s = Some (Inr s)"
| "iterations_loop (Suc k) p rnd s =
     (case iteration p rnd s of
        None \<Rightarrow> None
      | Some (Inl e) \<Rightarrow> Some (Inl e)
      | Some (Inr s') \<Rightarrow> iterations_loop k p rnd s')"

text \<open>\<open>solve_aco\<close> returns \<open>best_route\<close>, which is \<open>None\<close> or a list.\<close>

definition solve_aco :: "params \<Rightarrow> rng \<Rightarrow> (error + nat list option) option" where
  "solve_aco p rnd =
     (case iterations_loop (n_iterations p) p rnd init_state of
        None \<Rightarrow> None
      | Some (Inl e) \<Rightarrow> Some (Inl e)
      | Some (Inr s) \<Rightarrow> Some (Inr (best_route s)))"

text \<open>The states a run passes through at the start of its iterations.\<close>

inductive reachable :: "params \<Rightarrow> rng \<Rightarrow> aco_state \<Rightarrow> bool" for p rnd where
  reach_init: "reachable p rnd init_state"
| reach_iteration: "reachable p rnd s \<Longrightarrow> iteration p rnd s = Some (Inr s') \<Longrightarrow> reachable p rnd s'"

text \<open>The length of a route recomputed from the distance matrix, edge by edge.\<close>

definition route_length :: "matrix \<Rightarrow> nat list \<Rightarrow> fl" where
  "route_length D r = py_sum (map (\<lambda>k. D (r ! k) (r ! (k + 1))) [0 ..< length r - 1])"

section \<open>Predicates of the specification\<close>

text \<open>A finite value that is positive, or not negative.\<close>

fun pos_fin :: "fl \<Rightarrow> bool" where
  "pos_fin (Fin a) = (0 < a)"
| "pos_fin x = False"

fun nonneg_fin :: "fl \<Rightarrow> bool" where
  "nonneg_fin (Fin a) = (0 \<le> a)"
| "nonneg_fin x = False"

text \<open>
  A valid input: at least two locations, the start index in range, and a positive distance
  between any two distinct locations.
\<close>

definition positive_distances :: "params \<Rightarrow> bool" where
  "positive_distances p =
     (\<forall>i < num_locations p. \<forall>j < num_locations p. i \<noteq> j \<longrightarrow> pos_fin (distance_matrix p i j))"

definition valid_input :: "params \<Rightarrow> bool" where
  "valid_input p =
     (2 \<le> num_locations p \<and> start_index p < num_locations p \<and> positive_distances p)"

text \<open>The random source returns floats of \<open>[0, 1)\<close>.\<close>

definition unit_interval :: "rng \<Rightarrow> bool" where
  "unit_interval rnd = (\<forall>k. 0 \<le> rnd k \<and> rnd k < 1)"

text \<open>
  A tour: \<open>N + 1\<close> indices, from the start index back to it, the first \<open>N\<close> of them a
  permutation of \<open>0, ..., N - 1\<close>.
\<close>

definition is_tour :: "params \<Rightarrow> nat list \<Rightarrow> bool" where
  "is_tour p t =
     (length t = num_locations p + 1 \<and> hd t = start_index p \<and> last t = start_index p
      \<and> distinct (butlast t) \<and> set (butlast t) = {0 ..< num_locations p})"

text \<open>
  Invariants of a run. Route construction reads the pheromone matrix off the diagonal only
  (the current location is visited), so positivity is asked there.
\<close>

definition positive_cells :: "nat \<Rightarrow> matrix \<Rightarrow> bool" where
  "positive_cells n ph = (\<forall>i < n. \<forall>j < n. i \<noteq> j \<longrightarrow> pos_fin (ph i j))"

definition same_frame :: "aco_state \<Rightarrow> aco_state \<Rightarrow> bool" where
  "same_frame a b =
     (pheromone_matrix b = pheromone_matrix a \<and> best_route b = best_route a
       \<and> best_distance b = best_distance a \<and> all_routes b = all_routes a
       \<and> all_distances b = all_distances a \<and> printed b = printed a)"

definition tracked :: "params \<Rightarrow> aco_state \<Rightarrow> bool" where
  "tracked p s = (route s \<noteq> [] \<and> total_distance s = route_length (distance_matrix p) (route s))"

definition route_ok :: "params \<Rightarrow> aco_state \<Rightarrow> bool" where
  "route_ok p s =
     (route s \<noteq> [] \<and> hd (route s) = start_index p \<and> distinct (route s)
      \<and> set (route s) = visited s \<and> visited s \<subseteq> {0 ..< num_locations p}
      \<and> nonneg_fin (total_distance s))"

definition colony_ok :: "params \<Rightarrow> aco_state \<Rightarrow> bool" where
  "colony_ok p s =
     (positive_cells (num_locations p) (pheromone_matrix s)
      \<and> (\<forall>r \<in> set (all_routes s). is_tour p r)
      \<and> (\<forall>d \<in> set (all_distances s). pos_fin d)
      \<and> (case best_route s of None \<Rightarrow> best_distance s = PInf | Some r \<Rightarrow> is_tour p r))"


section \<open>Example inputs\<close>

text \<open>Two locations at distance 1.\<close>

definition two_points :: matrix where
  "two_points = (\<lambda>i j. if i = j then Fin 0 else Fin 1)"

definition no_ants_params :: params where
  "no_ants_params =
     \<lparr> num_locations = 2, distance_matrix = two_points, start_index = 0,
       n_ants = 0, n_iterations = 1000, alpha = 1, beta = 2, rho = 1/2, q0 = 9/10 \<rparr>"

section \<open>A run without ant runs\<close>

lemma iteration_no_ants:
  "n_ants p = 0 \<Longrightarrow> \<exists>s'. iteration p rnd s = Some (Inr s') \<and> best_route s' = best_route s"
  by (simp add: iteration_def update_pheromone_def Let_def)

lemma iterations_loop_no_ants:
  "n_ants p = 0 \<Longrightarrow> \<exists>s'. iterations_loop k p rnd s = Some (Inr s') \<and> best_route s' = best_route s"
proof (induction k arbitrary: s)
  case 0
  then show ?case by simp
next
  case (Suc k)
  from iteration_no_ants [OF Suc.prems, of rnd s]
  obtain s1 where s1: "iteration p rnd s = Some (Inr s1)" "best_route s1 = best_route s" by blast
  from Suc.IH [OF Suc.prems, of s1] s1 show ?case by auto
qed

text \<open>
  C10: with \<open>n_iterations = 0\<close> or \<open>n_ants = 0\<close> no ant ever runs, and \<open>solve_aco\<close>
  returns \<open>None\<close> (it returns, raises nothing, and the value is not a tour).
\<close>

theorem solve_aco_no_ant_runs:
  "n_iterations p = 0 \<or> n_ants p = 0 \<Longrightarrow> solve_aco p rnd = Some (Inr None)"
proof (cases "n_iterations p = 0")
  case True
  then show ?thesis by (simp add: solve_aco_def init_state_def)
next
  case False
  assume "n_iterations p = 0 \<or> n_ants p = 0"
  with False have "n_ants p = 0" by simp
  from iterations_loop_no_ants [OF this, of "n_iterations p" rnd init_state]
  show ?thesis by (auto simp: solve_aco_def init_state_def)
qed

theorem solve_aco_no_ant_runs_witness:
  "solve_aco no_ants_params (\<lambda>k. 0) = Some (Inr None)"
  using solve_aco_no_ant_runs [of no_ants_params "\<lambda>k. 0"]
  by (simp add: no_ants_params_def)

end
